theory Spec2Isabelle
  imports Main "HOL-Library.Char_ord" "HOL-Library.List_Lexorder" "HOL-Library.Sublist"
begin

section \<open>Data model of \<^verbatim>\<open>pkg/build/build_implementation.go\<close>\<close>

text \<open>
  The file under verification holds the methods \<^verbatim>\<open>BuildTarball\<close>,
  \<^verbatim>\<open>GenerateImageSBOM\<close>, \<^verbatim>\<open>buildImage\<close>, \<^verbatim>\<open>GenerateIndexSBOM\<close> of the build
  \<^verbatim>\<open>Context\<close> and the helpers \<^verbatim>\<open>additionalTags\<close> and \<^verbatim>\<open>newSBOM\<close>. Every one of
  them is a sequence of calls into collaborators (the package manager, the SBOM
  generator, the tar serialiser, the operating system) with an early return on each
  error. The embedding keeps that shape: a Go function returning \<^verbatim>\<open>(v, error)\<close>
  becomes a function returning \<open>error + v\<close>, the state a call may change is passed
  in and returned, and every call to a collaborator and every log line is appended to a
  list of events, so that the order of effects can be stated. Tracing spans
  (\<^verbatim>\<open>otel.Tracer(...).Start\<close>, \<^verbatim>\<open>span.End\<close>) are instrumentation only and are left out.
\<close>

type_synonym bytes = string
type_synonym Time = int

subsection \<open>Errors\<close>

text \<open>
  \<^verbatim>\<open>fmt.Errorf(format, args...)\<close> is kept symbolically: the format string, its operands
  that are not errors, and, when the format ends in \<^verbatim>\<open>%w\<close>, the wrapped error.
  \<open>errors_New\<close> also stands for any error made by a collaborator.
  \<open>ErrOSReleaseAlreadyPresent\<close> is the package-level sentinel of that name (declared in
  another file of the package); \<open>runtime_panic\<close> is a Go run-time panic (index out of
  range), which unwinds the function like an error that no caller inspects.
\<close>

datatype fmtarg = ArgS string | ArgD int | ArgQ string

datatype error =
    errors_New string
  | fmt_Errorf string "fmtarg list"
  | fmt_Errorf_w string "fmtarg list" error
  | ErrOSReleaseAlreadyPresent
  | runtime_panic string


subsection \<open>Values passed between the build context and its collaborators\<close>

text \<open>
  Modelled from the spec: the declaration of \<^verbatim>\<open>types.Architecture\<close> is not part of the
  file; the specification identifies an architecture with its canonical string
  representation, which \<^verbatim>\<open>String()\<close> returns. The APK name returned by \<^verbatim>\<open>ToAPK()\<close>
  is a parameter of the model (\<open>ToAPK\<close> below).
\<close>

datatype Architecture = Architecture (arch_String: string)

text \<open>\<^verbatim>\<open>v1.Hash\<close> and its \<^verbatim>\<open>String()\<close> form \<^verbatim>\<open>algorithm:hex\<close>.\<close>

record Hash =
  Algorithm :: string
  Hex :: string

definition Hash_String :: "Hash \<Rightarrow> string" where
  "Hash_String h = Algorithm h @ '':'' @ Hex h"

record Descriptor =
  desc_Digest :: Hash

record Manifest =
  Layers :: "Descriptor list"

text \<open>
  \<^verbatim>\<open>oci.SignedImage\<close> is an interface; the two methods the file calls are modelled by
  the results they return.
\<close>

record SignedImage =
  img_Manifest :: "error + Manifest"
  img_Digest :: "error + Hash"

text \<open>\<^verbatim>\<open>name.Digest\<close>: only \<^verbatim>\<open>DigestStr()\<close> is used.\<close>

record name_Digest =
  DigestStr :: string

text \<open>\<^verbatim>\<open>name.Tag\<close>: \<^verbatim>\<open>TagStr()\<close> and \<^verbatim>\<open>String()\<close>.\<close>

record name_Tag =
  TagStr :: string
  tag_String :: string

datatype MediaType =
    DockerManifestSchema2
  | OCIManifestSchema1
  | OCIImageIndex
  | DockerManifestList

text \<open>The fields of \<^verbatim>\<open>options.Options\<close> (\<^verbatim>\<open>bc.o\<close>) that the file reads or writes.\<close>

record Options =
  TarballPath :: string
  SourceDateEpoch :: Time
  SBOMFormats :: "string list"
  SBOMPath :: string
  Tags :: "string list"
  UseDockerMediaTypes :: bool
  WorkDir :: string
  o_Arch :: Architecture

record ImageConfiguration =
  VCSUrl :: string
  Entrypoint_Services :: "(string \<times> string) list"

text \<open>
  The build \<^verbatim>\<open>Context\<close>: \<^verbatim>\<open>bc.o\<close> and \<^verbatim>\<open>bc.ic\<close> (\<open>o\<close> is function composition
  in HOL, hence the prefix). Its handles \<^verbatim>\<open>bc.fs\<close>, \<^verbatim>\<open>bc.apk\<close> and \<^verbatim>\<open>bc.s6\<close> point into
  the world below.
\<close>

record Context =
  bc_o :: Options
  bc_ic :: ImageConfiguration

text \<open>\<^verbatim>\<open>types.SBOM\<close>, the record returned to the caller.\<close>

record SBOM_record =
  Path :: string
  Format :: string
  Arch :: string
  Digest :: Hash

text \<open>\<^verbatim>\<open>soptions.ArchImageInfo\<close>.\<close>

record ArchImageInfo =
  ai_Digest :: Hash
  ai_Arch :: Architecture
  ai_SBOMDigest :: string

text \<open>
  \<^verbatim>\<open>sbom.SBOM\<close>, the generator. The fields \<^verbatim>\<open>s.Options.ImageInfo.X\<close> and
  \<^verbatim>\<open>s.Options.Y\<close> that the file assigns are kept as the fields \<open>X\<close> and \<open>Y\<close> of one
  record; what else the generator holds is part of the world.
\<close>

record SBOM =
  Tag :: string
  Name :: string
  ii_SourceDateEpoch :: Time
  ii_VCSUrl :: string
  ImageMediaType :: "MediaType option"
  ImageDigest :: string
  ii_Arch :: "Architecture option"
  IndexDigest :: "Hash option"
  IndexMediaType :: "MediaType option"
  Images :: "ArchImageInfo list"
  Formats :: "string list"
  OutputDir :: string

subsection \<open>The world and the events\<close>

text \<open>
  The world holds the files on disk; the working filesystem tree, the package database
  and the generator's internals live in the extension of the record, which only the
  collaborators read and write.
\<close>

record world =
  files :: "string \<rightharpoonup> bytes"

datatype logarg = LogS string | LogV error

text \<open>
  The steps of the mutation pipeline, in the order of the calls in \<^verbatim>\<open>buildImage\<close>. The
  lookup of the installed packages (\<^verbatim>\<open>bc.apk.GetInstalled\<close>) belongs to the busybox
  step in the source (it stands under the comment \<^verbatim>\<open>add busybox symlinks\<close>) and is a
  call of its own here.
\<close>

datatype step =
    FixateWorld_step
  | additionalTags_step
  | mutateAccounts_step
  | mutatePaths_step
  | GenerateOSRelease_step
  | WriteSupervisionTree_step
  | GetInstalled_step
  | installBusyboxLinks_step
  | installLdconfigLinks_step
  | installCharDevices_step

text \<open>
  An event is a log line, a call to the generator or to \<^verbatim>\<open>os.Create\<close> with its
  argument, or a step of the mutation pipeline that has run, with the error it returned.
\<close>

datatype event =
    Log_Warnf string "logarg list"
  | Log_Infof string "logarg list"
  | Log_Errorf string "logarg list"
  | log_Printf string "logarg list"
  | os_Create_call string
  | SetLayerDigest_call Hash
  | ReadReleaseData_call
  | ReadPackageIndex_call
  | Generate_call SBOM
  | GenerateIndex_call SBOM
  | Step step "error option"

subsection \<open>Collaborators\<close>

text \<open>
  Methods of the options whose bodies are not in the file (\<^verbatim>\<open>TempDir\<close>,
  \<^verbatim>\<open>TarballFileName\<close>) are functions of the options, and \<^verbatim>\<open>filepath.Join\<close> is a
  function of its two operands.
\<close>

record lib_env =
  TempDir :: "Options \<Rightarrow> string"
  TarballFileName :: "Options \<Rightarrow> string"
  filepath_Join :: "string \<Rightarrow> string \<Rightarrow> string"

text \<open>
  Everything else the SBOM functions call that is not in the file: methods of the context
  (\<^verbatim>\<open>WantSBOM\<close>, \<^verbatim>\<open>GetBuildDateEpoch\<close>), the generator (\<^verbatim>\<open>sbom.NewWithFS\<close>,
  \<^verbatim>\<open>SetLayerDigest\<close>, \<^verbatim>\<open>ReadReleaseData\<close>, \<^verbatim>\<open>ReadPackageIndex\<close>, \<^verbatim>\<open>Generate\<close>,
  \<^verbatim>\<open>GenerateIndex\<close>), and library functions (\<^verbatim>\<open>name.NewTag\<close>, \<^verbatim>\<open>v1.NewHash\<close>,
  SHA-256 in hexadecimal). A method of the generator gets the generator's fields and the
  world and returns both.
\<close>

record 'a sbom_env = lib_env +
  WantSBOM :: "Context \<Rightarrow> bool"
  GetBuildDateEpoch :: "Context \<Rightarrow> error + Time"
  NewWithFS :: "Architecture \<Rightarrow> SBOM"
  NewTag :: "string \<Rightarrow> error + name_Tag"
  NewHash :: "string \<Rightarrow> error + Hash"
  ToAPK :: "Architecture \<Rightarrow> string"
  sha256_hex :: "bytes \<Rightarrow> string"
  open_error :: "string \<Rightarrow> error"
  SetLayerDigest :: "Hash \<Rightarrow> SBOM \<Rightarrow> 'a world_scheme \<Rightarrow> error option \<times> SBOM \<times> 'a world_scheme"
  ReadReleaseData :: "SBOM \<Rightarrow> 'a world_scheme \<Rightarrow> error option \<times> SBOM \<times> 'a world_scheme"
  ReadPackageIndex :: "SBOM \<Rightarrow> 'a world_scheme \<Rightarrow> error option \<times> SBOM \<times> 'a world_scheme"
  Generate :: "SBOM \<Rightarrow> 'a world_scheme \<Rightarrow> (error + string list) \<times> 'a world_scheme"
  GenerateIndex :: "SBOM \<Rightarrow> 'a world_scheme \<Rightarrow> (error + string list) \<times> 'a world_scheme"

subsection \<open>\<^verbatim>\<open>newSBOM\<close>\<close>

definition newSBOM :: "'a sbom_env \<Rightarrow> Options \<Rightarrow> ImageConfiguration \<Rightarrow> Time \<Rightarrow> SBOM \<times> event list" where
  "newSBOM env opts conf bde =
    (let s = NewWithFS env (o_Arch opts);
         (s, tr) =
           (case Tags opts of
              [] \<Rightarrow> (s, [])
            | t0 # _ \<Rightarrow>
               (case NewTag env t0 of
                  Inr tag \<Rightarrow> (s\<lparr>Tag := TagStr tag, Name := tag_String tag\<rparr>, [])
                | Inl err \<Rightarrow> (s, [Log_Errorf ''%s parsing tag %s, ignoring'' [LogS t0, LogV err]])));
         s = s\<lparr>ii_SourceDateEpoch := bde\<rparr>;
         s = s\<lparr>Formats := SBOMFormats opts\<rparr>;
         s = s\<lparr>ii_VCSUrl := VCSUrl conf\<rparr>;
         s = (if UseDockerMediaTypes opts
              then s\<lparr>ImageMediaType := Some DockerManifestSchema2\<rparr>
              else s\<lparr>ImageMediaType := Some OCIManifestSchema1\<rparr>);
         s = s\<lparr>OutputDir := TempDir env opts\<rparr>;
         s = (if SBOMPath opts \<noteq> [] then s\<lparr>OutputDir := SBOMPath opts\<rparr> else s)
     in (s, tr))"

subsection \<open>\<^verbatim>\<open>GenerateImageSBOM\<close>\<close>

text \<open>
  The loop over the produced files builds one record per file. \<^verbatim>\<open>bc.o.SBOMFormats[0]\<close>
  is evaluated in the loop body, so it panics only when there is a file and no format.
\<close>

fun image_sbom_records ::
  "string list \<Rightarrow> Architecture \<Rightarrow> Hash \<Rightarrow> string list \<Rightarrow> (error + SBOM_record list) \<times> event list" where
  "image_sbom_records fmts arch h [] = (Inr [], [])"
| "image_sbom_records fmts arch h (f # fs) =
     (case fmts of
        [] \<Rightarrow> (Inl (runtime_panic ''index out of range [0] with length 0''),
               [log_Printf ''f = %s'' [LogS f]])
      | fmt0 # _ \<Rightarrow>
         (case image_sbom_records fmts arch h fs of
            (Inl e, tr) \<Rightarrow> (Inl e, log_Printf ''f = %s'' [LogS f] # tr)
          | (Inr rs, tr) \<Rightarrow>
              (Inr (\<lparr>Path = f, Format = fmt0, Arch = arch_String arch, Digest = h\<rparr> # rs),
               log_Printf ''f = %s'' [LogS f] # tr)))"

definition GenerateImageSBOM ::
  "'a sbom_env \<Rightarrow> Context \<Rightarrow> Architecture \<Rightarrow> SignedImage \<Rightarrow> 'a world_scheme
   \<Rightarrow> (error + SBOM_record list) \<times> 'a world_scheme \<times> event list" where
  "GenerateImageSBOM env bc arch img w =
    (if \<not> WantSBOM env bc then (Inr [], w, [Log_Warnf ''skipping SBOM generation'' []])
     else case GetBuildDateEpoch env bc of
       Inl err \<Rightarrow> (Inl (fmt_Errorf_w ''computing build date epoch: %w'' [] err), w, [])
     | Inr bde \<Rightarrow>
        (case newSBOM env (bc_o bc) (bc_ic bc) bde of (s, tr0) \<Rightarrow>
         (case img_Manifest img of
            Inl err \<Rightarrow> (Inl (fmt_Errorf_w ''getting %s manifest: %w'' [ArgS (arch_String arch)] err), w, tr0)
          | Inr m \<Rightarrow>
             if length (Layers m) \<noteq> 1
             then (Inl (fmt_Errorf ''unexpected layers in %s manifest: %d''
                          [ArgS (arch_String arch), ArgD (int (length (Layers m)))]), w, tr0)
             else
              (let d = desc_Digest (Layers m ! 0); tr1 = tr0 @ [SetLayerDigest_call d] in
               case SetLayerDigest env d s w of
                 (Some err, s, w) \<Rightarrow> (Inl (fmt_Errorf_w ''reading layer tar: %w'' [] err), w, tr1)
               | (None, s, w) \<Rightarrow>
                  (let tr2 = tr1 @ [ReadReleaseData_call] in
                   case ReadReleaseData env s w of
                     (Some err, s, w) \<Rightarrow> (Inl (fmt_Errorf_w ''getting os-release: %w'' [] err), w, tr2)
                   | (None, s, w) \<Rightarrow>
                      (let tr3 = tr2 @ [ReadPackageIndex_call] in
                       case ReadPackageIndex env s w of
                         (Some err, s, w) \<Rightarrow>
                           (Inl (fmt_Errorf_w ''getting installed packages from sbom: %w'' [] err), w, tr3)
                       | (None, s, w) \<Rightarrow>
                          (case img_Digest img of
                             Inl err \<Rightarrow>
                               (Inl (fmt_Errorf_w ''getting %s image digest: %w'' [ArgS (arch_String arch)] err),
                                w, tr3)
                           | Inr h \<Rightarrow>
                              (let s = s\<lparr>ImageDigest := Hash_String h\<rparr>;
                                   s = s\<lparr>ii_Arch := Some arch\<rparr>;
                                   tr4 = tr3 @ [Generate_call s] in
                               case Generate env s w of
                                 (Inl err, w) \<Rightarrow> (Inl (fmt_Errorf_w ''generating sbom: %w'' [] err), w, tr4)
                               | (Inr fs, w) \<Rightarrow>
                                  (case image_sbom_records (SBOMFormats (bc_o bc)) arch h fs of
                                     (r, tr5) \<Rightarrow> (r, w, tr4 @ tr5))))))))))"

subsection \<open>\<^verbatim>\<open>GenerateIndexSBOM\<close>\<close>

text \<open>The \<^verbatim>\<open>switch\<close> on the first format; \<^verbatim>\<open>ext\<close> keeps its zero value otherwise.\<close>

definition sbom_ext :: "string \<Rightarrow> string" where
  "sbom_ext f =
    (if f = ''spdx'' then ''spdx.json''
     else if f = ''cyclonedx'' then ''cdx''
     else if f = ''idb'' then ''idb''
     else [])"

text \<open>
  \<^verbatim>\<open>khash.SHA256ForFile(path)\<close> opens the file, hashes what it reads and returns the
  digest in hexadecimal; it fails when the file cannot be opened.
\<close>

definition SHA256ForFile :: "'a sbom_env \<Rightarrow> 'a world_scheme \<Rightarrow> string \<Rightarrow> error + string" where
  "SHA256ForFile env w p =
    (case files w p of
       None \<Rightarrow> Inl (open_error env p)
     | Some b \<Rightarrow> Inr (sha256_hex env b))"

text \<open>
  A Go map is an association list here: its keys are distinct, and the order of the
  list is the order in which \<^verbatim>\<open>range\<close> happens to visit the keys. \<^verbatim>\<open>sort.Slice\<close>
  with the comparison \<^verbatim>\<open>archs[i].String() < archs[j].String()\<close> sorts by that key
  (Go compares strings bytewise, as the lexicographic order on \<open>char list\<close> does).
\<close>

definition sort_Slice_archs :: "Architecture list \<Rightarrow> Architecture list" where
  "sort_Slice_archs archs = sort_key arch_String archs"

definition sbom_file_name :: "'a sbom_env \<Rightarrow> Architecture \<Rightarrow> string \<Rightarrow> string" where
  "sbom_file_name env arch ext = ''sbom-'' @ ToAPK env arch @ ''.'' @ ext"

text \<open>The loop over the sorted architectures, appending to \<^verbatim>\<open>s.Options.ImageInfo.Images\<close>.\<close>

fun load_images ::
  "'a sbom_env \<Rightarrow> 'a world_scheme \<Rightarrow> (Architecture \<times> SignedImage) list \<Rightarrow> string
   \<Rightarrow> Architecture list \<Rightarrow> SBOM \<Rightarrow> error option \<times> SBOM" where
  "load_images env w imgs ext [] s = (None, s)"
| "load_images env w imgs ext (arch # archs) s =
    (let i = map_of imgs arch in
     case SHA256ForFile env w (filepath_Join env (OutputDir s) (sbom_file_name env arch ext)) of
       Inl err \<Rightarrow> (Some (fmt_Errorf_w ''checksumming %s SBOM: %w'' [ArgS (arch_String arch)] err), s)
     | Inr sbomHash \<Rightarrow>
        (case i of
           None \<Rightarrow> (Some (runtime_panic ''invalid memory address or nil pointer dereference''), s)
         | Some i \<Rightarrow>
            (case img_Digest i of
               Inl err \<Rightarrow> (Some (fmt_Errorf_w ''getting arch image digest: %w'' [] err), s)
             | Inr d \<Rightarrow>
                 load_images env w imgs ext archs
                   (s\<lparr>Images := Images s @
                        [\<lparr>ai_Digest = d, ai_Arch = arch, ai_SBOMDigest = sbomHash\<rparr>]\<rparr>))))"

definition GenerateIndexSBOM ::
  "'a sbom_env \<Rightarrow> Context \<Rightarrow> name_Digest \<Rightarrow> (Architecture \<times> SignedImage) list \<Rightarrow> 'a world_scheme
   \<Rightarrow> (error + SBOM_record list) \<times> 'a world_scheme \<times> event list" where
  "GenerateIndexSBOM env bc indexDigest imgs w =
    (if \<not> WantSBOM env bc then (Inr [], w, [Log_Warnf ''skipping index SBOM generation'' []])
     else case newSBOM env (bc_o bc) (bc_ic bc) (SourceDateEpoch (bc_o bc)) of (s, tr0) \<Rightarrow>
      (let tr1 = tr0 @ [Log_Infof ''Generating index SBOM'' []] in
       case NewHash env (DigestStr indexDigest) of
         Inl err \<Rightarrow> (Inl (errors_New ''getting index hash''), w, tr1)
       | Inr h \<Rightarrow>
          (let s = s\<lparr>IndexDigest := Some h\<rparr>;
               s = s\<lparr>IndexMediaType := Some OCIImageIndex\<rparr>;
               s = (if UseDockerMediaTypes (bc_o bc)
                    then s\<lparr>IndexMediaType := Some DockerManifestList\<rparr> else s)
           in case SBOMFormats (bc_o bc) of
                [] \<Rightarrow> (Inl (runtime_panic ''index out of range [0] with length 0''), w, tr1)
              | fmt0 # _ \<Rightarrow>
                 (let ext = sbom_ext fmt0;
                      archs = map fst imgs;
                      archs = sort_Slice_archs archs
                  in case load_images env w imgs ext archs s of
                       (Some err, s) \<Rightarrow> (Inl err, w, tr1)
                     | (None, s) \<Rightarrow>
                        (let tr2 = tr1 @ [GenerateIndex_call s] in
                         case GenerateIndex env s w of
                           (Inl err, w) \<Rightarrow> (Inl (fmt_Errorf_w ''generating index SBOM: %w'' [] err), w, tr2)
                         | (Inr fs, w) \<Rightarrow>
                            (Inr (map (\<lambda>f. \<lparr>Path = f, Format = fmt0, Arch = [], Digest = h\<rparr>) fs),
                             w, tr2))))))"

subsection \<open>\<^verbatim>\<open>additionalTags\<close> and \<^verbatim>\<open>buildImage\<close>\<close>






subsection \<open>\<^verbatim>\<open>BuildTarball\<close>: the writers\<close>

text \<open>
  What \<^verbatim>\<open>BuildTarball\<close> calls: the operating system (\<^verbatim>\<open>os.Create\<close>, writes to the
  open file, \<^verbatim>\<open>Stat\<close>), each of which may fail; \<^verbatim>\<open>tarball.NewContext\<close>; the tar
  serialiser \<^verbatim>\<open>WriteTar\<close>, known by the sequence of \<^verbatim>\<open>Write\<close> calls it makes on its
  writer and by the error it may return after them; and the gzip writer, a state machine
  that answers each \<^verbatim>\<open>Write\<close> and the final \<^verbatim>\<open>Close\<close> with the compressed chunks it
  passes on to the writer beneath it. A failed write to the file reports how many bytes
  got through.
\<close>

record ('a, 'z) tar_env = lib_env +
  os_Create_err :: "string \<Rightarrow> error option"
  os_Write_err :: "string \<Rightarrow> bytes \<Rightarrow> bytes \<Rightarrow> (nat \<times> error) option"
  os_Stat_err :: "string \<Rightarrow> error option"
  NewContext_err :: "Time \<Rightarrow> error option"
  WriteTar_writes :: "Time \<Rightarrow> 'a world_scheme \<Rightarrow> bytes list"
  WriteTar_err :: "Time \<Rightarrow> 'a world_scheme \<Rightarrow> error option"
  gzip_init :: "'z"
  gzip_Write :: "'z \<Rightarrow> bytes \<Rightarrow> bytes list \<times> 'z"
  gzip_Close :: "'z \<Rightarrow> bytes list"

definition io_ErrShortWrite :: error where
  "io_ErrShortWrite = errors_New ''short write''"

text \<open>The contents of a file; a path without a file reads as empty.\<close>

definition contents :: "(string \<rightharpoonup> bytes) \<Rightarrow> string \<Rightarrow> bytes" where
  "contents fsys path = (case fsys path of None \<Rightarrow> [] | Some c \<Rightarrow> c)"

text \<open>
  \<^verbatim>\<open>outfile.Write(p)\<close>: the file was created empty by \<^verbatim>\<open>os.Create\<close> and is written
  through this one handle only, so a write appends. It returns the number of bytes
  written and the error.
\<close>

definition file_Write ::
  "('a, 'z) tar_env \<Rightarrow> string \<Rightarrow> bytes \<Rightarrow> (string \<rightharpoonup> bytes) \<Rightarrow> nat \<times> error option \<times> (string \<rightharpoonup> bytes)" where
  "file_Write env path p fsys =
    (case os_Write_err env path (contents fsys path) p of
       None \<Rightarrow> (length p, None, fsys(path \<mapsto> contents fsys path @ p))
     | Some (n, e) \<Rightarrow>
         (min n (length p), Some e, fsys(path \<mapsto> contents fsys path @ take n p)))"

text \<open>
  \<^verbatim>\<open>bufio.Writer\<close>: the bytes held back (\<^verbatim>\<open>b.buf[0:b.n]\<close>), the sticky error
  \<^verbatim>\<open>b.err\<close>, and the file beneath it. \<open>bufio_Flush\<close> and \<open>bufio_Write\<close> follow the
  standard library's \<^verbatim>\<open>Flush\<close> and \<^verbatim>\<open>Write\<close>; \<open>N\<close> is the size of the buffer.
\<close>

record bufio_Writer =
  buf :: bytes
  berr :: "error option"
  wr :: string

definition bufio_Flush ::
  "('a, 'z) tar_env \<Rightarrow> bufio_Writer \<Rightarrow> (string \<rightharpoonup> bytes)
   \<Rightarrow> error option \<times> bufio_Writer \<times> (string \<rightharpoonup> bytes)" where
  "bufio_Flush env b fsys =
    (case berr b of
       Some e \<Rightarrow> (Some e, b, fsys)
     | None \<Rightarrow>
        if buf b = [] then (None, b, fsys)
        else
         (case file_Write env (wr b) (buf b) fsys of (n, err, fsys) \<Rightarrow>
           (let err = (if n < length (buf b) \<and> err = None then Some io_ErrShortWrite else err) in
            case err of
              Some e \<Rightarrow> (Some e, b\<lparr>buf := drop n (buf b), berr := Some e\<rparr>, fsys)
            | None \<Rightarrow> (None, b\<lparr>buf := []\<rparr>, fsys))))"

function bufio_Write ::
  "('a, 'z) tar_env \<Rightarrow> nat \<Rightarrow> bytes \<Rightarrow> bufio_Writer \<Rightarrow> (string \<rightharpoonup> bytes)
   \<Rightarrow> error option \<times> bufio_Writer \<times> (string \<rightharpoonup> bytes)" where
  "bufio_Write env N p b fsys =
    (if length p > N - length (buf b) \<and> berr b = None then
       (if buf b = [] then
          (case file_Write env (wr b) p fsys of (n, err, fsys) \<Rightarrow>
             bufio_Write env N (drop n p) (b\<lparr>berr := err\<rparr>) fsys)
        else
          (let n = min (N - length (buf b)) (length p);
               b = b\<lparr>buf := buf b @ take n p\<rparr>
           in case bufio_Flush env b fsys of (_, b, fsys) \<Rightarrow>
                bufio_Write env N (drop n p) b fsys))
     else
       (case berr b of
          Some e \<Rightarrow> (Some e, b, fsys)
        | None \<Rightarrow> (None, b\<lparr>buf := buf b @ p\<rparr>, fsys)))"
  by pat_completeness auto
termination
  by (relation "measure (\<lambda>(env, N, p, b, fsys).
          if berr b \<noteq> None then 0 else 2 * length p + (if buf b = [] then 0 else 1) + 1)")
     (auto simp: bufio_Flush_def file_Write_def Let_def split: option.splits prod.splits if_splits)

declare bufio_Write.simps [simp del]

text \<open>
  The state of the four writers and the disk. A \<^verbatim>\<open>hash.Hash\<close> is known by the bytes
  written into it (its sum is the SHA-256 of them); writing to a hash never fails.
\<close>

record 'z writers =
  diffid :: bytes
  gzw :: 'z
  digest :: bytes
  bufw :: bufio_Writer
  disk :: "string \<rightharpoonup> bytes"

text \<open>
  \<^verbatim>\<open>io.MultiWriter(digest, buf).Write(p)\<close>: each writer in turn, stopping at the first
  error.
\<close>

definition sink_Write ::
  "('a, 'z) tar_env \<Rightarrow> nat \<Rightarrow> bytes \<Rightarrow> 'z writers \<Rightarrow> error option \<times> 'z writers" where
  "sink_Write env N p st =
    (let st = st\<lparr>digest := digest st @ p\<rparr> in
     case bufio_Write env N p (bufw st) (disk st) of
       (err, b, fsys) \<Rightarrow> (err, st\<lparr>bufw := b, disk := fsys\<rparr>))"

fun sink_Writes ::
  "('a, 'z) tar_env \<Rightarrow> nat \<Rightarrow> bytes list \<Rightarrow> 'z writers \<Rightarrow> error option \<times> 'z writers" where
  "sink_Writes env N [] st = (None, st)"
| "sink_Writes env N (c # cs) st =
    (case sink_Write env N c st of
       (Some e, st) \<Rightarrow> (Some e, st)
     | (None, st) \<Rightarrow> sink_Writes env N cs st)"

text \<open>
  The gzip writer on top of that sink: \<^verbatim>\<open>gzw.Write(p)\<close> and \<^verbatim>\<open>gzw.Close()\<close>. The
  library compresses in the background and reports a failed write of the sink at a later
  \<^verbatim>\<open>Write\<close> or at \<^verbatim>\<open>Close\<close>; here the failure is reported by the call that causes it.
  A run without error passes on the same bytes in the same order either way.
\<close>

definition gzw_Write ::
  "('a, 'z) tar_env \<Rightarrow> nat \<Rightarrow> bytes \<Rightarrow> 'z writers \<Rightarrow> error option \<times> 'z writers" where
  "gzw_Write env N p st =
    (case gzip_Write env (gzw st) p of
       (out, z) \<Rightarrow> sink_Writes env N out (st\<lparr>gzw := z\<rparr>))"

definition gzw_Close ::
  "('a, 'z) tar_env \<Rightarrow> nat \<Rightarrow> 'z writers \<Rightarrow> error option \<times> 'z writers" where
  "gzw_Close env N st = sink_Writes env N (gzip_Close env (gzw st)) st"

text \<open>\<^verbatim>\<open>io.MultiWriter(diffid, gzw).Write(p)\<close>, the writer handed to \<^verbatim>\<open>WriteTar\<close>.\<close>

definition src_Write ::
  "('a, 'z) tar_env \<Rightarrow> nat \<Rightarrow> bytes \<Rightarrow> 'z writers \<Rightarrow> error option \<times> 'z writers" where
  "src_Write env N p st = gzw_Write env N p (st\<lparr>diffid := diffid st @ p\<rparr>)"

fun src_Writes ::
  "('a, 'z) tar_env \<Rightarrow> nat \<Rightarrow> bytes list \<Rightarrow> 'z writers \<Rightarrow> error option \<times> 'z writers" where
  "src_Writes env N [] st = (None, st)"
| "src_Writes env N (c # cs) st =
    (case src_Write env N c st of
       (Some e, st) \<Rightarrow> (Some e, st)
     | (None, st) \<Rightarrow> src_Writes env N cs st)"

text \<open>
  \<^verbatim>\<open>tw.WriteTar(ctx, w, bc.fs)\<close>: it makes its writes in order, gives up with the error
  of the first write that fails, and otherwise returns its own result.
\<close>

definition WriteTar ::
  "('a, 'z) tar_env \<Rightarrow> Time \<Rightarrow> 'a world_scheme \<Rightarrow> nat \<Rightarrow> 'z writers \<Rightarrow> error option \<times> 'z writers" where
  "WriteTar env epoch w N st =
    (case src_Writes env N (WriteTar_writes env epoch w) st of
       (Some e, st) \<Rightarrow> (Some e, st)
     | (None, st) \<Rightarrow> (WriteTar_err env epoch w, st))"

text \<open>\<^verbatim>\<open>outfile.Stat()\<close> and the \<^verbatim>\<open>Size()\<close> of its result.\<close>

definition file_Stat_Size ::
  "('a, 'z) tar_env \<Rightarrow> string \<Rightarrow> (string \<rightharpoonup> bytes) \<Rightarrow> error + int" where
  "file_Stat_Size env path fsys =
    (case os_Stat_err env path of
       Some e \<Rightarrow> Inl e
     | None \<Rightarrow> Inr (int (length (contents fsys path))))"

subsection \<open>\<^verbatim>\<open>BuildTarball\<close>\<close>

text \<open>
  The path handed to \<^verbatim>\<open>os.Create\<close>; \<^verbatim>\<open>outfile.Name()\<close> is that path.
\<close>

definition tarball_target :: "'b lib_env_scheme \<Rightarrow> Options \<Rightarrow> string" where
  "tarball_target env opts =
    (if TarballPath opts \<noteq> [] then TarballPath opts
     else filepath_Join env (TempDir env opts) (TarballFileName env opts))"

text \<open>
  The result is the returned tuple or the error, the context (whose options the function
  assigns to), the world and the events. \<^verbatim>\<open>defer outfile.Close()\<close> changes no content.
\<close>

definition BuildTarball ::
  "('a, 'z) tar_env \<Rightarrow> Context \<Rightarrow> 'a world_scheme
   \<Rightarrow> (error + string \<times> bytes \<times> bytes \<times> int) \<times> Context \<times> 'a world_scheme \<times> event list" where
  "BuildTarball env bc w =
    (let name = tarball_target env (bc_o bc); tr = [os_Create_call name] in
     case os_Create_err env name of
       Some err \<Rightarrow>
         (Inl (fmt_Errorf_w ''opening the build context tarball path failed: %w'' [] err), bc, w, tr)
     | None \<Rightarrow>
    (let w = w\<lparr>files := (files w)(name \<mapsto> [])\<rparr>;
         bc = bc\<lparr>bc_o := (bc_o bc)\<lparr>TarballPath := name\<rparr>\<rparr>
     in case NewContext_err env (SourceDateEpoch (bc_o bc)) of
       Some err \<Rightarrow>
         (Inl (fmt_Errorf_w ''failed to construct tarball build context: %w'' [] err), bc, w, tr)
     | None \<Rightarrow>
    (let N = 2 ^ 22;
         st = \<lparr>diffid = [], gzw = gzip_init env, digest = [],
               bufw = \<lparr>buf = [], berr = None, wr = name\<rparr>, disk = files w\<rparr>
     in case WriteTar env (SourceDateEpoch (bc_o bc)) w N st of
       (Some err, st) \<Rightarrow>
         (Inl (fmt_Errorf_w ''failed to generate tarball for image: %w'' [] err),
          bc, w\<lparr>files := disk st\<rparr>, tr)
     | (None, st) \<Rightarrow>
    (case gzw_Close env N st of
       (Some err, st) \<Rightarrow>
         (Inl (fmt_Errorf_w ''closing gzip writer: %w'' [] err), bc, w\<lparr>files := disk st\<rparr>, tr)
     | (None, st) \<Rightarrow>
    (case bufio_Flush env (bufw st) (disk st) of
       (Some err, b, fsys) \<Rightarrow>
         (Inl (fmt_Errorf_w ''flushing %s: %w'' [ArgS name] err), bc, w\<lparr>files := fsys\<rparr>, tr)
     | (None, b, fsys) \<Rightarrow>
    (case file_Stat_Size env name fsys of
       Inl err \<Rightarrow>
         (Inl (fmt_Errorf_w ''stat(%q): %w'' [ArgQ name] err), bc, w\<lparr>files := fsys\<rparr>, tr)
     | Inr sz \<Rightarrow>
         (Inr (name, diffid st, digest st, sz), bc, w\<lparr>files := fsys\<rparr>,
          tr @ [Log_Infof ''built image layer tarball as %s'' [LogS name]])))))))"

text \<open>
  The compressed stream the gzip writer produces for a sequence of writes followed by
  \<^verbatim>\<open>Close\<close>.
\<close>

fun gzip_stream :: "('a, 'z) tar_env \<Rightarrow> 'z \<Rightarrow> bytes list \<Rightarrow> bytes" where
  "gzip_stream env z [] = concat (gzip_Close env z)"
| "gzip_stream env z (c # cs) =
    (case gzip_Write env z c of (out, z') \<Rightarrow> concat out @ gzip_stream env z' cs)"

section \<open>Vocabulary of the properties\<close>



text \<open>The paths handed to \<^verbatim>\<open>os.Create\<close>.\<close>

fun created_paths :: "event list \<Rightarrow> string list" where
  "created_paths [] = []"
| "created_paths (os_Create_call p # tr) = p # created_paths tr"
| "created_paths (e # tr) = created_paths tr"





text \<open>
  A file system \<open>fsys'\<close> that differs from \<open>fsys\<close> at most in the file at \<open>path\<close>, which
  is still there if it was.
\<close>

definition only_file_changed ::
  "string \<Rightarrow> (string \<rightharpoonup> bytes) \<Rightarrow> (string \<rightharpoonup> bytes) \<Rightarrow> bool" where
  "only_file_changed path fsys fsys' \<longleftrightarrow>
     (\<forall>q. q \<noteq> path \<longrightarrow> fsys' q = fsys q) \<and> (fsys path \<noteq> None \<longrightarrow> fsys' path \<noteq> None)"

text \<open>
  The bytes that have reached the buffered writer: what is in the file, followed by what
  the writer still holds back.
\<close>

definition pending :: "'z writers \<Rightarrow> bytes" where
  "pending st = contents (disk st) (wr (bufw st)) @ buf (bufw st)"

section \<open>Concrete inputs\<close>

text \<open>
  A build of one image for \<^verbatim>\<open>x86_64\<close> with the SPDX format, and collaborators that
  succeed. The hexadecimal digest of these inputs is a stand-in that brackets the
  content; the generator writes one file per image.
\<close>

definition opts0 :: Options where
  "opts0 = \<lparr>TarballPath = [], SourceDateEpoch = 0, SBOMFormats = [''spdx''], SBOMPath = [],
            Tags = [''apko.local/app:latest''], UseDockerMediaTypes = False,
            WorkDir = ''/work'', o_Arch = Architecture ''x86_64''\<rparr>"

definition bc0 :: Context where
  "bc0 = \<lparr>bc_o = opts0, bc_ic = \<lparr>VCSUrl = ''git+https://example.org/app'', Entrypoint_Services = []\<rparr>\<rparr>"

definition bc_nosbom :: Context where
  "bc_nosbom = bc0\<lparr>bc_o := opts0\<lparr>SBOMFormats := []\<rparr>\<rparr>"

definition bc_explicit :: Context where
  "bc_explicit = bc0\<lparr>bc_o := opts0\<lparr>TarballPath := ''/out/layer.tar.gz''\<rparr>\<rparr>"

definition w0 :: world where
  "w0 = \<lparr>files = Map.empty\<rparr>"

definition sbom0 :: SBOM where
  "sbom0 = \<lparr>Tag = [], Name = [], ii_SourceDateEpoch = 0, ii_VCSUrl = [], ImageMediaType = None,
            ImageDigest = [], ii_Arch = None, IndexDigest = None, IndexMediaType = None,
            Images = [], Formats = [], OutputDir = []\<rparr>"

definition sbom_env0 :: "unit sbom_env" where
  "sbom_env0 =
    \<lparr>TempDir = (\<lambda>opts. ''/tmp/apko''),
     TarballFileName = (\<lambda>opts. ''apko-x86_64.tar.gz''),
     filepath_Join = (\<lambda>d f. d @ ''/'' @ f),
     WantSBOM = (\<lambda>bc. SBOMFormats (bc_o bc) \<noteq> []),
     GetBuildDateEpoch = (\<lambda>bc. Inr (SourceDateEpoch (bc_o bc))),
     NewWithFS = (\<lambda>arch. sbom0),
     NewTag = (\<lambda>t. Inr \<lparr>TagStr = ''latest'', tag_String = t\<rparr>),
     NewHash = (\<lambda>d. Inr \<lparr>Algorithm = take 6 d, Hex = drop 7 d\<rparr>),
     ToAPK = arch_String,
     sha256_hex = (\<lambda>b. ''sha256('' @ b @ '')''),
     open_error = (\<lambda>p. errors_New (''open '' @ p @ '': no such file or directory'')),
     SetLayerDigest = (\<lambda>d s w. (None, s, w)),
     ReadReleaseData = (\<lambda>s w. (None, s, w)),
     ReadPackageIndex = (\<lambda>s w. (None, s, w)),
     Generate = (\<lambda>s w. (Inr [OutputDir s @ ''/sbom-x86_64.spdx.json''],
                         w\<lparr>files := (files w)(OutputDir s @ ''/sbom-x86_64.spdx.json'' \<mapsto> ''{}'')\<rparr>)),
     GenerateIndex = (\<lambda>s w. (Inr [OutputDir s @ ''/sbom-index.spdx.json''],
                         w\<lparr>files := (files w)(OutputDir s @ ''/sbom-index.spdx.json'' \<mapsto> ''{}'')\<rparr>))\<rparr>"

definition layer0 :: Descriptor where
  "layer0 = \<lparr>desc_Digest = \<lparr>Algorithm = ''sha256'', Hex = ''1111''\<rparr>\<rparr>"


definition img_of :: "Descriptor list \<Rightarrow> string \<Rightarrow> SignedImage" where
  "img_of ls hex = \<lparr>img_Manifest = Inr \<lparr>Layers = ls\<rparr>,
                    img_Digest = Inr \<lparr>Algorithm = ''sha256'', Hex = hex\<rparr>\<rparr>"



text \<open>
  Three images in the order in which the map happens to be visited, the same map visited in
  another order, and a disk that holds their SBOM files.
\<close>

definition imgs0 :: "(Architecture \<times> SignedImage) list" where
  "imgs0 = [(Architecture ''x86_64'', img_of [layer0] ''aaaa''),
            (Architecture ''aarch64'', img_of [layer0] ''bbbb''),
            (Architecture ''riscv64'', img_of [layer0] ''cccc'')]"


definition w_index :: world where
  "w_index = \<lparr>files = [''/tmp/apko/sbom-x86_64.spdx.json'' \<mapsto> ''X'',
                       ''/tmp/apko/sbom-aarch64.spdx.json'' \<mapsto> ''A'',
                       ''/tmp/apko/sbom-riscv64.spdx.json'' \<mapsto> ''R'']\<rparr>"

definition index_digest0 :: name_Digest where
  "index_digest0 = \<lparr>DigestStr = ''sha256:dddd''\<rparr>"

definition index_images0 :: "ArchImageInfo list" where
  "index_images0 =
    [\<lparr>ai_Digest = \<lparr>Algorithm = ''sha256'', Hex = ''bbbb''\<rparr>, ai_Arch = Architecture ''aarch64'',
      ai_SBOMDigest = ''sha256(A)''\<rparr>,
     \<lparr>ai_Digest = \<lparr>Algorithm = ''sha256'', Hex = ''cccc''\<rparr>, ai_Arch = Architecture ''riscv64'',
      ai_SBOMDigest = ''sha256(R)''\<rparr>,
     \<lparr>ai_Digest = \<lparr>Algorithm = ''sha256'', Hex = ''aaaa''\<rparr>, ai_Arch = Architecture ''x86_64'',
      ai_SBOMDigest = ''sha256(X)''\<rparr>]"

text \<open>The generator as \<^verbatim>\<open>GenerateIndexSBOM\<close> hands it to \<^verbatim>\<open>GenerateIndex\<close> on these inputs.\<close>

definition index_sbom0 :: SBOM where
  "index_sbom0 = sbom0\<lparr>Tag := ''latest'', Name := ''apko.local/app:latest'',
       ii_VCSUrl := ''git+https://example.org/app'', ImageMediaType := Some OCIManifestSchema1,
       IndexDigest := Some \<lparr>Algorithm = ''sha256'', Hex = ''dddd''\<rparr>,
       IndexMediaType := Some OCIImageIndex, Images := index_images0,
       Formats := [''spdx''], OutputDir := ''/tmp/apko''\<rparr>"




text \<open>
  A tar serialiser that makes two writes, a stand-in compressor that marks the start and
  the end of its stream, and an operating system that does not fail; and one that cannot
  create the file.
\<close>

definition tar_env0 :: "(unit, nat) tar_env" where
  "tar_env0 =
    \<lparr>TempDir = (\<lambda>opts. ''/tmp/apko''),
     TarballFileName = (\<lambda>opts. ''apko-x86_64.tar.gz''),
     filepath_Join = (\<lambda>d f. d @ ''/'' @ f),
     os_Create_err = (\<lambda>p. None),
     os_Write_err = (\<lambda>p cur new. None),
     os_Stat_err = (\<lambda>p. None),
     NewContext_err = (\<lambda>epoch. None),
     WriteTar_writes = (\<lambda>epoch w. [''etc/'', ''os-release'']),
     WriteTar_err = (\<lambda>epoch w. None),
     gzip_init = 0,
     gzip_Write = (\<lambda>z p. (if z = 0 then [''gz<'', p] else [p], Suc z)),
     gzip_Close = (\<lambda>z. [''>''])\<rparr>"

definition tar_env_no_create :: "(unit, nat) tar_env" where
  "tar_env_no_create = tar_env0\<lparr>os_Create_err := (\<lambda>p. Some (errors_New ''permission denied''))\<rparr>"

section \<open>Properties of the SBOM functions\<close>

subsection \<open>Events of the helpers\<close>




lemma image_sbom_records_Digest:
  "image_sbom_records fmts arch h fs = (Inr rs, tr) \<Longrightarrow> r \<in> set rs \<Longrightarrow> Digest r = h"
  by (induction fs arbitrary: rs tr) (auto split: list.splits sum.splits prod.splits)

subsection \<open>The layer count\<close>






subsection \<open>SBOM generation switched off\<close>

text \<open>
  C3. When SBOM generation is disabled (\<^verbatim>\<open>WantSBOM\<close> is false), \<^verbatim>\<open>GenerateImageSBOM\<close>
  and \<^verbatim>\<open>GenerateIndexSBOM\<close> both return the empty list and no error. The only event is
  the warning; the world, and with it every file, is as it was.
\<close>

theorem sbom_disabled_returns_empty:
  "\<not> WantSBOM env bc \<Longrightarrow>
     GenerateImageSBOM env bc arch img w = (Inr [], w, [Log_Warnf ''skipping SBOM generation'' []])
   \<and> GenerateIndexSBOM env bc indexDigest imgs w
       = (Inr [], w, [Log_Warnf ''skipping index SBOM generation'' []])"
  by (simp add: GenerateImageSBOM_def GenerateIndexSBOM_def)

theorem sbom_disabled_returns_empty_witness:
  "\<not> WantSBOM sbom_env0 bc_nosbom
   \<and> GenerateImageSBOM sbom_env0 bc_nosbom (Architecture ''x86_64'') (img_of [layer0] ''aaaa'') w0
       = (Inr [], w0, [Log_Warnf ''skipping SBOM generation'' []])
   \<and> GenerateIndexSBOM sbom_env0 bc_nosbom index_digest0 imgs0 w_index
       = (Inr [], w_index, [Log_Warnf ''skipping index SBOM generation'' []])"
proof -
  have a: "\<not> WantSBOM sbom_env0 bc_nosbom"
    by (simp add: sbom_env0_def bc_nosbom_def bc0_def opts0_def)
  from a sbom_disabled_returns_empty[OF a, of "Architecture ''x86_64''" "img_of [layer0] ''aaaa''" w0]
    sbom_disabled_returns_empty[OF a, of _ _ w_index index_digest0 imgs0]
  show ?thesis by simp
qed

subsection \<open>The loop over the architectures\<close>









subsection \<open>Runs on the concrete inputs\<close>

lemma image_run_a:
  "GenerateImageSBOM sbom_env0 bc0 (Architecture ''x86_64'') (img_of [layer0] ''aaaa'') w0 =
     (Inr [\<lparr>Path = ''/tmp/apko/sbom-x86_64.spdx.json'', Format = ''spdx'', Arch = ''x86_64'',
            Digest = \<lparr>Algorithm = ''sha256'', Hex = ''aaaa''\<rparr>\<rparr>],
      w0\<lparr>files := [''/tmp/apko/sbom-x86_64.spdx.json'' \<mapsto> ''{}'']\<rparr>,
      [SetLayerDigest_call (desc_Digest layer0), ReadReleaseData_call, ReadPackageIndex_call,
       Generate_call (sbom0\<lparr>Tag := ''latest'', Name := ''apko.local/app:latest'',
         ii_VCSUrl := ''git+https://example.org/app'', ImageMediaType := Some OCIManifestSchema1,
         ImageDigest := ''sha256:aaaa'', ii_Arch := Some (Architecture ''x86_64''),
         Formats := [''spdx''], OutputDir := ''/tmp/apko''\<rparr>),
       log_Printf ''f = %s'' [LogS ''/tmp/apko/sbom-x86_64.spdx.json'']])"
  by (simp add: GenerateImageSBOM_def newSBOM_def sbom_env0_def bc0_def opts0_def img_of_def
       layer0_def w0_def sbom0_def Hash_String_def Let_def)

lemma image_run_b:
  "GenerateImageSBOM sbom_env0 bc0 (Architecture ''x86_64'') (img_of [layer0] ''bbbb'') w0 =
     (Inr [\<lparr>Path = ''/tmp/apko/sbom-x86_64.spdx.json'', Format = ''spdx'', Arch = ''x86_64'',
            Digest = \<lparr>Algorithm = ''sha256'', Hex = ''bbbb''\<rparr>\<rparr>],
      w0\<lparr>files := [''/tmp/apko/sbom-x86_64.spdx.json'' \<mapsto> ''{}'']\<rparr>,
      [SetLayerDigest_call (desc_Digest layer0), ReadReleaseData_call, ReadPackageIndex_call,
       Generate_call (sbom0\<lparr>Tag := ''latest'', Name := ''apko.local/app:latest'',
         ii_VCSUrl := ''git+https://example.org/app'', ImageMediaType := Some OCIManifestSchema1,
         ImageDigest := ''sha256:bbbb'', ii_Arch := Some (Architecture ''x86_64''),
         Formats := [''spdx''], OutputDir := ''/tmp/apko''\<rparr>),
       log_Printf ''f = %s'' [LogS ''/tmp/apko/sbom-x86_64.spdx.json'']])"
  by (simp add: GenerateImageSBOM_def newSBOM_def sbom_env0_def bc0_def opts0_def img_of_def
       layer0_def w0_def sbom0_def Hash_String_def Let_def)

lemma index_run:
  "GenerateIndexSBOM sbom_env0 bc0 index_digest0 imgs0 w_index =
     (Inr [\<lparr>Path = ''/tmp/apko/sbom-index.spdx.json'', Format = ''spdx'', Arch = [],
            Digest = \<lparr>Algorithm = ''sha256'', Hex = ''dddd''\<rparr>\<rparr>],
      w_index\<lparr>files := (files w_index)(''/tmp/apko/sbom-index.spdx.json'' \<mapsto> ''{}'')\<rparr>,
      [Log_Infof ''Generating index SBOM'' [], GenerateIndex_call index_sbom0])"
  by (simp add: GenerateIndexSBOM_def newSBOM_def sbom_env0_def bc0_def opts0_def img_of_def
      index_digest0_def imgs0_def w_index_def sbom0_def sbom_ext_def sort_Slice_archs_def
      SHA256ForFile_def sbom_file_name_def index_sbom0_def index_images0_def Let_def)

subsection \<open>The order of the architectures\<close>



subsection \<open>The SBOM file that is hashed\<close>



subsection \<open>The digest of a returned record\<close>

text \<open>
  C9, as stated, at two images that differ in their digest only: the generator writes
  the same SBOM file with the same contents for both, and the two records returned for
  that file carry different digests, each the digest of its image. So the digest of a
  record is not the content digest of the file at its path, whatever function of the
  contents that digest is.
\<close>

theorem sbom_record_digest_counterexample:
  "fst (GenerateImageSBOM sbom_env0 bc0 (Architecture ''x86_64'') (img_of [layer0] ''aaaa'') w0)
     = Inr [\<lparr>Path = ''/tmp/apko/sbom-x86_64.spdx.json'', Format = ''spdx'', Arch = ''x86_64'',
             Digest = \<lparr>Algorithm = ''sha256'', Hex = ''aaaa''\<rparr>\<rparr>]
   \<and> files (fst (snd (GenerateImageSBOM sbom_env0 bc0 (Architecture ''x86_64'') (img_of [layer0] ''aaaa'') w0)))
       ''/tmp/apko/sbom-x86_64.spdx.json'' = Some ''{}''
   \<and> fst (GenerateImageSBOM sbom_env0 bc0 (Architecture ''x86_64'') (img_of [layer0] ''bbbb'') w0)
     = Inr [\<lparr>Path = ''/tmp/apko/sbom-x86_64.spdx.json'', Format = ''spdx'', Arch = ''x86_64'',
             Digest = \<lparr>Algorithm = ''sha256'', Hex = ''bbbb''\<rparr>\<rparr>]
   \<and> files (fst (snd (GenerateImageSBOM sbom_env0 bc0 (Architecture ''x86_64'') (img_of [layer0] ''bbbb'') w0)))
       ''/tmp/apko/sbom-x86_64.spdx.json'' = Some ''{}''
   \<and> \<not> (\<exists>content_digest :: bytes \<Rightarrow> Hash.
          content_digest ''{}'' = \<lparr>Algorithm = ''sha256'', Hex = ''aaaa''\<rparr>
        \<and> content_digest ''{}'' = \<lparr>Algorithm = ''sha256'', Hex = ''bbbb''\<rparr>)"
  by (simp add: image_run_a image_run_b)

text \<open>
  C9, amended. Every record that \<^verbatim>\<open>GenerateImageSBOM\<close> returns carries the digest of the
  image (the result of \<^verbatim>\<open>img.Digest()\<close>), and every record that \<^verbatim>\<open>GenerateIndexSBOM\<close>
  returns carries the digest of the index (the hash parsed from \<^verbatim>\<open>indexDigest\<close>): the
  digest of what the SBOM describes, not of the SBOM file.
\<close>

theorem sbom_record_digest_is_subject_digest:
  "(GenerateImageSBOM env bc arch img w = (Inr rs, w', tr) \<longrightarrow>
      (\<forall>r\<in>set rs. img_Digest img = Inr (Digest r)))
   \<and> (GenerateIndexSBOM env bc indexDigest imgs w = (Inr rs', w'', tr') \<longrightarrow>
      (\<forall>r\<in>set rs'. NewHash env (DigestStr indexDigest) = Inr (Digest r)))"
proof (intro conjI impI ballI)
  fix r assume a: "GenerateImageSBOM env bc arch img w = (Inr rs, w', tr)" and r: "r \<in> set rs"
  then show "img_Digest img = Inr (Digest r)"
    by (auto simp: GenerateImageSBOM_def Let_def
        split: prod.splits sum.splits option.splits if_splits
        dest: image_sbom_records_Digest)
next
  fix r assume a: "GenerateIndexSBOM env bc indexDigest imgs w = (Inr rs', w'', tr')" and r: "r \<in> set rs'"
  then show "NewHash env (DigestStr indexDigest) = Inr (Digest r)"
    by (auto simp: GenerateIndexSBOM_def Let_def
        split: prod.splits sum.splits option.splits if_splits list.splits)
qed

theorem sbom_record_digest_is_subject_digest_witness:
  "fst (GenerateImageSBOM sbom_env0 bc0 (Architecture ''x86_64'') (img_of [layer0] ''aaaa'') w0)
     = Inr [\<lparr>Path = ''/tmp/apko/sbom-x86_64.spdx.json'', Format = ''spdx'', Arch = ''x86_64'',
             Digest = \<lparr>Algorithm = ''sha256'', Hex = ''aaaa''\<rparr>\<rparr>]
   \<and> img_Digest (img_of [layer0] ''aaaa'') = Inr \<lparr>Algorithm = ''sha256'', Hex = ''aaaa''\<rparr>
   \<and> fst (GenerateIndexSBOM sbom_env0 bc0 index_digest0 imgs0 w_index)
     = Inr [\<lparr>Path = ''/tmp/apko/sbom-index.spdx.json'', Format = ''spdx'', Arch = [],
            Digest = \<lparr>Algorithm = ''sha256'', Hex = ''dddd''\<rparr>\<rparr>]
   \<and> NewHash sbom_env0 (DigestStr index_digest0) = Inr \<lparr>Algorithm = ''sha256'', Hex = ''dddd''\<rparr>"
  using sbom_record_digest_is_subject_digest[where env = sbom_env0 and bc = bc0
      and arch = "Architecture ''x86_64''" and img = "img_of [layer0] ''aaaa''" and w = w0,
      unfolded image_run_a]
    sbom_record_digest_is_subject_digest[where env = sbom_env0 and bc = bc0
      and indexDigest = index_digest0 and imgs = imgs0 and w = w_index, unfolded index_run]
  by (simp add: image_run_a index_run)

section \<open>Properties of the mutation pipeline\<close>

subsection \<open>Runs on the concrete inputs\<close>




subsection \<open>The release metadata that is already there\<close>

text \<open>
  Both properties of \<^verbatim>\<open>buildImage\<close> are proved by splitting the function into its
  twelve ways out (a failure of one of the ten steps, with or without the warning
  before, and the success) and checking each.
\<close>



subsection \<open>The order of the steps\<close>




section \<open>Properties of \<^verbatim>\<open>BuildTarball\<close>\<close>

subsection \<open>The file beneath the buffered writer\<close>

lemma only_file_changed_refl: "only_file_changed path fsys fsys"
  by (simp add: only_file_changed_def)

lemma only_file_changed_trans:
  "only_file_changed path a b \<Longrightarrow> only_file_changed path b c \<Longrightarrow> only_file_changed path a c"
  by (simp add: only_file_changed_def)

lemma file_Write_frame:
  "file_Write env path p fsys = (n, err, fsys') \<Longrightarrow> only_file_changed path fsys fsys'"
  by (auto simp: file_Write_def only_file_changed_def split: option.splits prod.splits)

lemma file_Write_ok:
  "file_Write env path p fsys = (n, None, fsys') \<Longrightarrow>
     n = length p \<and> contents fsys' path = contents fsys path @ p"
  by (auto simp: file_Write_def contents_def split: option.splits prod.splits)

lemma bufio_Flush_frame:
  "bufio_Flush env b fsys = (e, b', fsys') \<Longrightarrow> only_file_changed (wr b) fsys fsys' \<and> wr b' = wr b"
  by (auto simp: bufio_Flush_def Let_def only_file_changed_refl
      split: option.splits prod.splits if_splits dest: file_Write_frame)

lemma bufio_Flush_ok:
  "bufio_Flush env b fsys = (e, b', fsys') \<Longrightarrow> berr b' = None \<Longrightarrow>
     e = None \<and> berr b = None \<and> buf b' = [] \<and> contents fsys' (wr b) = contents fsys (wr b) @ buf b"
  by (auto simp: bufio_Flush_def Let_def
      split: option.splits prod.splits if_splits dest: file_Write_ok)

lemma bufio_Write_frame:
  "bufio_Write env N p b fsys = (e, b', fsys') \<Longrightarrow>
     only_file_changed (wr b) fsys fsys' \<and> wr b' = wr b"
proof (induction env N p b fsys arbitrary: e b' fsys' rule: bufio_Write.induct)
  case (1 env N p b fsys)
  show ?case
  proof (cases "length p > N - length (buf b) \<and> berr b = None")
    case False
    with "1.prems" show ?thesis
      by (auto simp: bufio_Write.simps[of env N p b fsys] only_file_changed_refl split: option.splits)
  next
    case True
    show ?thesis
    proof (cases "buf b = []")
      case e: True
      obtain n err fsys1 where fw: "file_Write env (wr b) p fsys = (n, err, fsys1)"
        by (cases "file_Write env (wr b) p fsys")
      with True e "1.prems" have r: "bufio_Write env N (drop n p) (b\<lparr>berr := err\<rparr>) fsys1 = (e, b', fsys')"
        by (simp add: bufio_Write.simps[of env N p b fsys])
      from "1.IH"(1)[OF True e fw[symmetric] refl r] file_Write_frame[OF fw]
      show ?thesis by (auto intro: only_file_changed_trans)
    next
      case ne: False
      define n where "n = min (N - length (buf b)) (length p)"
      define b1 where "b1 = b\<lparr>buf := buf b @ take n p\<rparr>"
      obtain e1 b2 fsys1 where fl: "bufio_Flush env b1 fsys = (e1, b2, fsys1)"
        by (cases "bufio_Flush env b1 fsys")
      with True ne "1.prems" have r: "bufio_Write env N (drop n p) b2 fsys1 = (e, b', fsys')"
        by (simp add: bufio_Write.simps[of env N p b fsys] n_def b1_def Let_def)
      from "1.IH"(2)[OF True ne n_def b1_def fl[symmetric] refl r] bufio_Flush_frame[OF fl]
      show ?thesis by (auto simp: b1_def intro: only_file_changed_trans)
    qed
  qed
qed

lemma bufio_Write_ok:
  "bufio_Write env N p b fsys = (None, b', fsys') \<Longrightarrow>
     berr b' = None \<and> contents fsys' (wr b) @ buf b' = contents fsys (wr b) @ buf b @ p"
proof (induction env N p b fsys arbitrary: b' fsys' rule: bufio_Write.induct)
  case (1 env N p b fsys)
  show ?case
  proof (cases "length p > N - length (buf b) \<and> berr b = None")
    case False
    with "1.prems" show ?thesis
      by (auto simp: bufio_Write.simps[of env N p b fsys] split: option.splits)
  next
    case True
    show ?thesis
    proof (cases "buf b = []")
      case e: True
      obtain n err fsys1 where fw: "file_Write env (wr b) p fsys = (n, err, fsys1)"
        by (cases "file_Write env (wr b) p fsys")
      with True e "1.prems" have r: "bufio_Write env N (drop n p) (b\<lparr>berr := err\<rparr>) fsys1 = (None, b', fsys')"
        by (simp add: bufio_Write.simps[of env N p b fsys])
      have ih: "berr b' = None \<and> contents fsys' (wr b) @ buf b' = contents fsys1 (wr b) @ buf b @ drop n p"
        using "1.IH"(1)[OF True e fw[symmetric] refl r] by simp
      have "err = None"
        using r by (cases err) (simp_all add: bufio_Write.simps[of env N "drop n p"])
      with fw file_Write_ok[of env "wr b" p fsys n fsys1]
      have "n = length p" "contents fsys1 (wr b) = contents fsys (wr b) @ p" by simp_all
      with ih e show ?thesis by simp
    next
      case ne: False
      define n where "n = min (N - length (buf b)) (length p)"
      define b1 where "b1 = b\<lparr>buf := buf b @ take n p\<rparr>"
      obtain e1 b2 fsys1 where fl: "bufio_Flush env b1 fsys = (e1, b2, fsys1)"
        by (cases "bufio_Flush env b1 fsys")
      with True ne "1.prems" have r: "bufio_Write env N (drop n p) b2 fsys1 = (None, b', fsys')"
        by (simp add: bufio_Write.simps[of env N p b fsys] n_def b1_def Let_def)
      have w2: "wr b2 = wr b" using bufio_Flush_frame[OF fl] by (simp add: b1_def)
      have ih: "berr b' = None \<and> contents fsys' (wr b) @ buf b' = contents fsys1 (wr b) @ buf b2 @ drop n p"
        using "1.IH"(2)[OF True ne n_def b1_def fl[symmetric] refl r] w2 by simp
      have "berr b2 = None"
        using r by (cases "berr b2") (simp_all add: bufio_Write.simps[of env N "drop n p"])
      from bufio_Flush_ok[OF fl this]
      have "buf b2 = []" "contents fsys1 (wr b) = contents fsys (wr b) @ buf b @ take n p"
        by (simp_all add: b1_def)
      with ih show ?thesis by simp
    qed
  qed
qed

subsection \<open>The writers stacked on it\<close>

lemma sink_Write_frame:
  "sink_Write env N p st = (e, st') \<Longrightarrow>
     only_file_changed (wr (bufw st)) (disk st) (disk st') \<and> wr (bufw st') = wr (bufw st)"
  by (auto simp: sink_Write_def Let_def split: prod.splits dest: bufio_Write_frame)

lemma sink_Write_ok:
  "sink_Write env N p st = (None, st') \<Longrightarrow>
     digest st' = digest st @ p \<and> diffid st' = diffid st \<and> gzw st' = gzw st
     \<and> berr (bufw st') = None \<and> pending st' = pending st @ p"
  using bufio_Write_frame[of env N p "bufw st" "disk st"]
  by (auto simp: sink_Write_def Let_def pending_def split: prod.splits dest!: bufio_Write_ok)

lemma sink_Writes_frame:
  "sink_Writes env N cs st = (e, st') \<Longrightarrow>
     only_file_changed (wr (bufw st)) (disk st) (disk st') \<and> wr (bufw st') = wr (bufw st)"
proof (induction cs arbitrary: st)
  case Nil
  then show ?case by (simp add: only_file_changed_refl)
next
  case (Cons c cs)
  obtain e1 st1 where s: "sink_Write env N c st = (e1, st1)"
    by (cases "sink_Write env N c st")
  note f = sink_Write_frame[OF s]
  show ?case
  proof (cases e1)
    case None
    with Cons.prems s have "sink_Writes env N cs st1 = (e, st')" by simp
    from Cons.IH[OF this] f show ?thesis
      by (auto intro: only_file_changed_trans)
  next
    case (Some a)
    with Cons.prems s f show ?thesis by simp
  qed
qed

lemma sink_Writes_ok:
  "sink_Writes env N cs st = (None, st') \<Longrightarrow>
     digest st' = digest st @ concat cs \<and> diffid st' = diffid st \<and> gzw st' = gzw st
     \<and> (cs \<noteq> [] \<longrightarrow> berr (bufw st') = None) \<and> pending st' = pending st @ concat cs"
proof (induction cs arbitrary: st)
  case Nil
  then show ?case by simp
next
  case (Cons c cs)
  obtain e1 st1 where s: "sink_Write env N c st = (e1, st1)"
    by (cases "sink_Write env N c st")
  with Cons.prems have e1: "e1 = None" and r: "sink_Writes env N cs st1 = (None, st')"
    by (cases e1; simp)+
  from sink_Write_ok[OF s[unfolded e1]] Cons.IH[OF r]
  have a: "digest st' = digest st @ concat (c # cs) \<and> diffid st' = diffid st \<and> gzw st' = gzw st
     \<and> pending st' = pending st @ concat (c # cs)"
    by simp
  have "berr (bufw st') = None"
  proof (cases cs)
    case Nil
    with r sink_Write_ok[OF s[unfolded e1]] show ?thesis by simp
  next
    case (Cons a list)
    with Cons.IH[OF r] show ?thesis by simp
  qed
  with a show ?case by simp
qed

lemma src_Write_frame:
  "src_Write env N p st = (e, st') \<Longrightarrow>
     only_file_changed (wr (bufw st)) (disk st) (disk st') \<and> wr (bufw st') = wr (bufw st)"
  by (auto simp: src_Write_def gzw_Write_def split: prod.splits dest!: sink_Writes_frame)

lemma src_Write_ok:
  "src_Write env N p st = (None, st') \<Longrightarrow>
     diffid st' = diffid st @ p
     \<and> digest st' = digest st @ concat (fst (gzip_Write env (gzw st) p))
     \<and> gzw st' = snd (gzip_Write env (gzw st) p)
     \<and> pending st' = pending st @ concat (fst (gzip_Write env (gzw st) p))"
  by (auto simp: src_Write_def gzw_Write_def pending_def split: prod.splits dest!: sink_Writes_ok)

lemma src_Writes_frame:
  "src_Writes env N cs st = (e, st') \<Longrightarrow>
     only_file_changed (wr (bufw st)) (disk st) (disk st') \<and> wr (bufw st') = wr (bufw st)"
proof (induction cs arbitrary: st)
  case Nil
  then show ?case by (simp add: only_file_changed_refl)
next
  case (Cons c cs)
  obtain e1 st1 where s: "src_Write env N c st = (e1, st1)"
    by (cases "src_Write env N c st")
  note f = src_Write_frame[OF s]
  show ?case
  proof (cases e1)
    case None
    with Cons.prems s have "src_Writes env N cs st1 = (e, st')" by simp
    from Cons.IH[OF this] f show ?thesis
      by (auto intro: only_file_changed_trans)
  next
    case (Some a)
    with Cons.prems s f show ?thesis by simp
  qed
qed

lemma gzw_Close_frame:
  "gzw_Close env N st = (e, st') \<Longrightarrow>
     only_file_changed (wr (bufw st)) (disk st) (disk st') \<and> wr (bufw st') = wr (bufw st)"
  by (simp add: gzw_Close_def sink_Writes_frame)

lemma src_Writes_then_Close:
  "src_Writes env N cs st = (None, st1) \<Longrightarrow> gzw_Close env N st1 = (None, st2) \<Longrightarrow>
     diffid st2 = diffid st @ concat cs
     \<and> digest st2 = digest st @ gzip_stream env (gzw st) cs
     \<and> pending st2 = pending st @ gzip_stream env (gzw st) cs"
proof (induction cs arbitrary: st)
  case Nil
  then show ?case
    by (auto simp: gzw_Close_def dest!: sink_Writes_ok)
next
  case (Cons c cs)
  obtain e1 sta where s: "src_Write env N c st = (e1, sta)"
    by (cases "src_Write env N c st")
  with Cons.prems(1) have e1: "e1 = None" and r: "src_Writes env N cs sta = (None, st1)"
    by (cases e1; simp)+
  from src_Write_ok[OF s[unfolded e1]] Cons.IH[OF r Cons.prems(2)]
  show ?case
    by (simp split: prod.splits)
qed

lemma WriteTar_frame:
  "WriteTar env epoch w N st = (e, st') \<Longrightarrow>
     only_file_changed (wr (bufw st)) (disk st) (disk st') \<and> wr (bufw st') = wr (bufw st)"
  by (auto simp: WriteTar_def split: prod.splits option.splits dest!: src_Writes_frame)

subsection \<open>Runs on the concrete inputs\<close>

lemma tarball_run:
  "BuildTarball tar_env0 bc0 w0 =
    (Inr (''/tmp/apko/apko-x86_64.tar.gz'', ''etc/os-release'', ''gz<etc/os-release>'', 18),
     bc0\<lparr>bc_o := opts0\<lparr>TarballPath := ''/tmp/apko/apko-x86_64.tar.gz''\<rparr>\<rparr>,
     w0\<lparr>files := [''/tmp/apko/apko-x86_64.tar.gz'' \<mapsto> ''gz<etc/os-release>'']\<rparr>,
     [os_Create_call ''/tmp/apko/apko-x86_64.tar.gz'',
      Log_Infof ''built image layer tarball as %s'' [LogS ''/tmp/apko/apko-x86_64.tar.gz'']])"
  by (simp add: BuildTarball_def tarball_target_def tar_env0_def bc0_def opts0_def w0_def
      WriteTar_def src_Write_def gzw_Write_def gzw_Close_def sink_Write_def bufio_Write.simps
      bufio_Flush_def file_Write_def file_Stat_Size_def contents_def Let_def)

lemma tarball_run_explicit:
  "BuildTarball tar_env0 bc_explicit w0 =
    (Inr (''/out/layer.tar.gz'', ''etc/os-release'', ''gz<etc/os-release>'', 18),
     bc_explicit,
     w0\<lparr>files := [''/out/layer.tar.gz'' \<mapsto> ''gz<etc/os-release>'']\<rparr>,
     [os_Create_call ''/out/layer.tar.gz'',
      Log_Infof ''built image layer tarball as %s'' [LogS ''/out/layer.tar.gz'']])"
  by (simp add: BuildTarball_def tarball_target_def tar_env0_def bc_explicit_def bc0_def opts0_def w0_def
      WriteTar_def src_Write_def gzw_Write_def gzw_Close_def sink_Write_def bufio_Write.simps
      bufio_Flush_def file_Write_def file_Stat_Size_def contents_def Let_def)

lemma tarball_run_no_create:
  "BuildTarball tar_env_no_create bc0 w0 =
    (Inl (fmt_Errorf_w ''opening the build context tarball path failed: %w'' []
            (errors_New ''permission denied'')),
     bc0, w0, [os_Create_call ''/tmp/apko/apko-x86_64.tar.gz''])"
  by (simp add: BuildTarball_def tarball_target_def tar_env_no_create_def tar_env0_def bc0_def
      opts0_def w0_def Let_def)

subsection \<open>The two digests and the size\<close>

text \<open>
  C7. When \<^verbatim>\<open>BuildTarball\<close> succeeds, the first hash it returns has been fed the
  concatenation of the writes of the tar serialiser, which are the writes the gzip
  writer has been fed; the second hash has been fed the stream the gzip writer has
  produced for those writes and its \<^verbatim>\<open>Close\<close>; that stream is the contents of the output
  file after the flush; and the size returned is the length of those contents. The
  serialiser runs in the world in which the output file has just been created.
\<close>

theorem BuildTarball_digests:
  assumes "BuildTarball env bc w = (Inr (name, dif, dig, sz), bc', w', tr)"
  shows "name = tarball_target env (bc_o bc)
       \<and> dif = concat (WriteTar_writes env (SourceDateEpoch (bc_o bc)) (w\<lparr>files := (files w)(name \<mapsto> [])\<rparr>))
       \<and> dig = gzip_stream env (gzip_init env)
                 (WriteTar_writes env (SourceDateEpoch (bc_o bc)) (w\<lparr>files := (files w)(name \<mapsto> [])\<rparr>))
       \<and> files w' name = Some dig
       \<and> sz = int (length dig)"
proof -
  define w1 where "w1 = w\<lparr>files := (files w)(name \<mapsto> [])\<rparr>"
  define st0 :: "'b writers" where "st0 = \<lparr>diffid = [], gzw = gzip_init env, digest = [],
               bufw = \<lparr>buf = [], berr = None, wr = name\<rparr>, disk = files w1\<rparr>"
  define cs where "cs = WriteTar_writes env (SourceDateEpoch (bc_o bc)) w1"
  from assms obtain st1 st2 b fsys where
    nm: "name = tarball_target env (bc_o bc)"
    and wt: "src_Writes env (2 ^ 22) cs st0 = (None, st1)"
    and cl: "gzw_Close env (2 ^ 22) st1 = (None, st2)"
    and fl: "bufio_Flush env (bufw st2) (disk st2) = (None, b, fsys)"
    and sz: "sz = int (length (contents fsys name))"
    and res: "dif = diffid st2" "dig = digest st2" "w' = w1\<lparr>files := fsys\<rparr>"
    unfolding BuildTarball_def WriteTar_def file_Stat_Size_def w1_def st0_def cs_def
    by (auto simp: Let_def split: option.splits prod.splits sum.splits)
  have wr2: "wr (bufw st2) = name"
    using src_Writes_frame[OF wt] gzw_Close_frame[OF cl] by (simp add: st0_def)
  have dsk: "only_file_changed name (disk st0) fsys"
    using src_Writes_frame[OF wt] gzw_Close_frame[OF cl] bufio_Flush_frame[OF fl] wr2
    by (auto simp: st0_def intro: only_file_changed_trans)
  from src_Writes_then_Close[OF wt cl]
  have a: "diffid st2 = concat cs" "digest st2 = gzip_stream env (gzip_init env) cs"
    "pending st2 = gzip_stream env (gzip_init env) cs"
    by (simp_all add: st0_def pending_def contents_def w1_def)
  have "berr b = None"
    using fl by (auto simp: bufio_Flush_def Let_def split: option.splits prod.splits if_splits)
  from bufio_Flush_ok[OF fl this] a(3) wr2
  have c: "contents fsys name = gzip_stream env (gzip_init env) cs"
    by (simp add: pending_def)
  have "fsys name \<noteq> None"
    using dsk by (simp add: only_file_changed_def st0_def w1_def)
  with c have "fsys name = Some (gzip_stream env (gzip_init env) cs)"
    by (auto simp: contents_def)
  with a c sz res nm show ?thesis
    by (simp add: cs_def w1_def)
qed

theorem BuildTarball_digests_witness:
  "BuildTarball tar_env0 bc0 w0 =
    (Inr (''/tmp/apko/apko-x86_64.tar.gz'', ''etc/os-release'', ''gz<etc/os-release>'', 18),
     bc0\<lparr>bc_o := opts0\<lparr>TarballPath := ''/tmp/apko/apko-x86_64.tar.gz''\<rparr>\<rparr>,
     w0\<lparr>files := [''/tmp/apko/apko-x86_64.tar.gz'' \<mapsto> ''gz<etc/os-release>'']\<rparr>,
     [os_Create_call ''/tmp/apko/apko-x86_64.tar.gz'',
      Log_Infof ''built image layer tarball as %s'' [LogS ''/tmp/apko/apko-x86_64.tar.gz'']])
   \<and> ''/tmp/apko/apko-x86_64.tar.gz'' = tarball_target tar_env0 (bc_o bc0)
   \<and> ''etc/os-release''
       = concat (WriteTar_writes tar_env0 (SourceDateEpoch (bc_o bc0))
                  (w0\<lparr>files := (files w0)(''/tmp/apko/apko-x86_64.tar.gz'' \<mapsto> [])\<rparr>))
   \<and> ''gz<etc/os-release>''
       = gzip_stream tar_env0 (gzip_init tar_env0)
           (WriteTar_writes tar_env0 (SourceDateEpoch (bc_o bc0))
              (w0\<lparr>files := (files w0)(''/tmp/apko/apko-x86_64.tar.gz'' \<mapsto> [])\<rparr>))
   \<and> files (w0\<lparr>files := [''/tmp/apko/apko-x86_64.tar.gz'' \<mapsto> ''gz<etc/os-release>'']\<rparr>)
         ''/tmp/apko/apko-x86_64.tar.gz'' = Some ''gz<etc/os-release>''
   \<and> 18 = int (length ''gz<etc/os-release>'')"
  by (rule conjI[OF tarball_run BuildTarball_digests[OF tarball_run]])

subsection \<open>The output file\<close>

lemma BuildTarball_effects:
  assumes "BuildTarball env bc w = (res, bc', w', tr)"
  shows "created_paths tr = [tarball_target env (bc_o bc)]
       \<and> w' = w\<lparr>files := files w'\<rparr>
       \<and> (\<forall>q. q \<noteq> tarball_target env (bc_o bc) \<longrightarrow> files w' q = files w q)
       \<and> (case os_Create_err env (tarball_target env (bc_o bc)) of
            Some e \<Rightarrow> res = Inl (fmt_Errorf_w ''opening the build context tarball path failed: %w'' [] e)
                      \<and> w' = w \<and> bc' = bc
          | None \<Rightarrow> files w' (tarball_target env (bc_o bc)) \<noteq> None
                      \<and> bc' = bc\<lparr>bc_o := (bc_o bc)\<lparr>TarballPath := tarball_target env (bc_o bc)\<rparr>\<rparr>
                      \<and> (\<forall>name dif dig sz. res = Inr (name, dif, dig, sz) \<longrightarrow> name = tarball_target env (bc_o bc)))"
proof (cases "os_Create_err env (tarball_target env (bc_o bc))")
  case (Some e)
  with assms show ?thesis
    by (auto simp: BuildTarball_def Let_def)
next
  case None
  define name where "name = tarball_target env (bc_o bc)"
  define w1 where "w1 = w\<lparr>files := (files w)(name \<mapsto> [])\<rparr>"
  define st0 :: "'b writers" where "st0 = \<lparr>diffid = [], gzw = gzip_init env, digest = [],
               bufw = \<lparr>buf = [], berr = None, wr = name\<rparr>, disk = files w1\<rparr>"
  have k: "\<And>fsys. only_file_changed name (disk st0) fsys \<Longrightarrow>
     (w1\<lparr>files := fsys\<rparr>) = w\<lparr>files := fsys\<rparr> \<and> (\<forall>q. q \<noteq> name \<longrightarrow> fsys q = files w q) \<and> fsys name \<noteq> None"
    by (simp add: only_file_changed_def st0_def w1_def)
  have k0: "only_file_changed name (disk st0) (files w1)"
    by (simp add: st0_def only_file_changed_refl)
  have "created_paths tr = [name] \<and> bc' = bc\<lparr>bc_o := (bc_o bc)\<lparr>TarballPath := name\<rparr>\<rparr>
      \<and> (\<forall>n dif dig sz. res = Inr (n, dif, dig, sz) \<longrightarrow> n = name)
      \<and> (\<exists>fsys. only_file_changed name (disk st0) fsys \<and> w' = w1\<lparr>files := fsys\<rparr>)"
  proof (cases "NewContext_err env (SourceDateEpoch (bc_o bc))")
    case (Some e)
    with assms None k0 show ?thesis
      by (auto simp: BuildTarball_def Let_def name_def[symmetric] w1_def[symmetric] intro!: exI[of _ "files w1"])
  next
    case nc: None
    obtain e1 st1 where wt: "WriteTar env (SourceDateEpoch (bc_o bc)) w1 (2 ^ 22) st0 = (e1, st1)"
      by (cases "WriteTar env (SourceDateEpoch (bc_o bc)) w1 (2 ^ 22) st0")
    note f1 = WriteTar_frame[OF wt]
    obtain e2 st2 where cl: "gzw_Close env (2 ^ 22) st1 = (e2, st2)"
      by (cases "gzw_Close env (2 ^ 22) st1")
    note f2 = gzw_Close_frame[OF cl]
    obtain e3 b fsys where fl: "bufio_Flush env (bufw st2) (disk st2) = (e3, b, fsys)"
      by (cases "bufio_Flush env (bufw st2) (disk st2)")
    note f3 = bufio_Flush_frame[OF fl]
    have g1: "only_file_changed name (disk st0) (disk st1)"
      using f1 by (simp add: st0_def)
    have g2: "only_file_changed name (disk st0) (disk st2)"
      using f1 f2 by (auto simp: st0_def intro: only_file_changed_trans)
    have g3: "only_file_changed name (disk st0) fsys"
      using f1 f2 f3 by (auto simp: st0_def intro: only_file_changed_trans)
    from assms None nc wt cl fl g1 g2 g3 show ?thesis
      unfolding BuildTarball_def Let_def name_def[symmetric] w1_def[symmetric] st0_def[symmetric]
      by (auto split: option.splits sum.splits)
  qed
  with k None show ?thesis
    unfolding name_def[symmetric] by auto
qed

text \<open>
  C8. Every run of \<^verbatim>\<open>BuildTarball\<close> calls \<^verbatim>\<open>os.Create\<close> once: on the configured
  tarball path when it is not empty, else on the temporary directory joined with the
  tarball file name. No other file on disk changes, and nothing else of the world. If
  the file cannot be created, the function returns the error wrapped as
  \<^verbatim>\<open>opening the build context tarball path failed\<close> and the world is as it was; if it
  can, the file exists afterwards.
\<close>

theorem BuildTarball_creates_one_file:
  assumes "BuildTarball env bc w = (res, bc', w', tr)"
  shows "created_paths tr = [tarball_target env (bc_o bc)]
       \<and> (TarballPath (bc_o bc) \<noteq> [] \<longrightarrow> tarball_target env (bc_o bc) = TarballPath (bc_o bc))
       \<and> (TarballPath (bc_o bc) = [] \<longrightarrow>
            tarball_target env (bc_o bc)
              = filepath_Join env (TempDir env (bc_o bc)) (TarballFileName env (bc_o bc)))
       \<and> w' = w\<lparr>files := files w'\<rparr>
       \<and> (\<forall>q. q \<noteq> tarball_target env (bc_o bc) \<longrightarrow> files w' q = files w q)
       \<and> (\<forall>e. os_Create_err env (tarball_target env (bc_o bc)) = Some e \<longrightarrow>
            res = Inl (fmt_Errorf_w ''opening the build context tarball path failed: %w'' [] e)
            \<and> w' = w)
       \<and> (os_Create_err env (tarball_target env (bc_o bc)) = None \<longrightarrow>
            files w' (tarball_target env (bc_o bc)) \<noteq> None)"
  using BuildTarball_effects[OF assms]
  by (auto simp: tarball_target_def split: option.splits)

theorem BuildTarball_creates_one_file_witness:
  "BuildTarball tar_env0 bc0 w0 =
    (Inr (''/tmp/apko/apko-x86_64.tar.gz'', ''etc/os-release'', ''gz<etc/os-release>'', 18),
     bc0\<lparr>bc_o := opts0\<lparr>TarballPath := ''/tmp/apko/apko-x86_64.tar.gz''\<rparr>\<rparr>,
     w0\<lparr>files := [''/tmp/apko/apko-x86_64.tar.gz'' \<mapsto> ''gz<etc/os-release>'']\<rparr>,
     [os_Create_call ''/tmp/apko/apko-x86_64.tar.gz'',
      Log_Infof ''built image layer tarball as %s'' [LogS ''/tmp/apko/apko-x86_64.tar.gz'']])
   \<and> TarballPath (bc_o bc0) = []
   \<and> tarball_target tar_env0 (bc_o bc0)
       = filepath_Join tar_env0 (TempDir tar_env0 (bc_o bc0)) (TarballFileName tar_env0 (bc_o bc0))
   \<and> created_paths [os_Create_call ''/tmp/apko/apko-x86_64.tar.gz'',
        Log_Infof ''built image layer tarball as %s'' [LogS ''/tmp/apko/apko-x86_64.tar.gz'']]
       = [tarball_target tar_env0 (bc_o bc0)]
   \<and> os_Create_err tar_env0 (tarball_target tar_env0 (bc_o bc0)) = None
   \<and> files (w0\<lparr>files := [''/tmp/apko/apko-x86_64.tar.gz'' \<mapsto> ''gz<etc/os-release>'']\<rparr>)
        (tarball_target tar_env0 (bc_o bc0)) \<noteq> None
   \<and> ''/etc/passwd'' \<noteq> tarball_target tar_env0 (bc_o bc0)
   \<and> files (w0\<lparr>files := [''/tmp/apko/apko-x86_64.tar.gz'' \<mapsto> ''gz<etc/os-release>'']\<rparr>) ''/etc/passwd''
       = files w0 ''/etc/passwd''
   \<and> os_Create_err tar_env_no_create (tarball_target tar_env_no_create (bc_o bc0))
       = Some (errors_New ''permission denied'')
   \<and> BuildTarball tar_env_no_create bc0 w0
       = (Inl (fmt_Errorf_w ''opening the build context tarball path failed: %w'' []
                 (errors_New ''permission denied'')),
          bc0, w0, [os_Create_call ''/tmp/apko/apko-x86_64.tar.gz''])"
proof -
  have t: "tarball_target tar_env0 (bc_o bc0) = ''/tmp/apko/apko-x86_64.tar.gz''"
    "tarball_target tar_env_no_create (bc_o bc0) = ''/tmp/apko/apko-x86_64.tar.gz''"
    by (simp_all add: tarball_target_def tar_env0_def tar_env_no_create_def bc0_def opts0_def)
  have p: "TarballPath (bc_o bc0) = []"
    by (simp add: bc0_def opts0_def)
  have c: "os_Create_err tar_env0 (tarball_target tar_env0 (bc_o bc0)) = None"
    "os_Create_err tar_env_no_create (tarball_target tar_env_no_create (bc_o bc0))
       = Some (errors_New ''permission denied'')"
    by (simp_all add: tar_env0_def tar_env_no_create_def)
  have q: "''/etc/passwd'' \<noteq> tarball_target tar_env0 (bc_o bc0)"
    by (simp add: t)
  note r = BuildTarball_creates_one_file[OF tarball_run]
  note r' = BuildTarball_creates_one_file[OF tarball_run_no_create]
  from r p have 1: "tarball_target tar_env0 (bc_o bc0)
       = filepath_Join tar_env0 (TempDir tar_env0 (bc_o bc0)) (TarballFileName tar_env0 (bc_o bc0))"
    by blast
  from r have 2: "created_paths [os_Create_call ''/tmp/apko/apko-x86_64.tar.gz'',
        Log_Infof ''built image layer tarball as %s'' [LogS ''/tmp/apko/apko-x86_64.tar.gz'']]
       = [tarball_target tar_env0 (bc_o bc0)]"
    by blast
  from r c have 3: "files (w0\<lparr>files := [''/tmp/apko/apko-x86_64.tar.gz'' \<mapsto> ''gz<etc/os-release>'']\<rparr>)
        (tarball_target tar_env0 (bc_o bc0)) \<noteq> None"
    by blast
  from r q have 4: "files (w0\<lparr>files := [''/tmp/apko/apko-x86_64.tar.gz'' \<mapsto> ''gz<etc/os-release>'']\<rparr>) ''/etc/passwd''
       = files w0 ''/etc/passwd''"
    by blast
  from tarball_run p 1 2 c 3 q 4 tarball_run_no_create r' show ?thesis
    by blast
qed

subsection \<open>The configuration after the call\<close>

text \<open>
  C10. If the output file cannot be created, \<^verbatim>\<open>BuildTarball\<close> leaves the context as it
  was. If it can, then whether or not the rest succeeds, the context afterwards is the
  context before with the tarball path of its options set to the path of the created
  file and nothing else changed; that path names the one file created, which exists, and
  is the name returned on success.
\<close>

theorem BuildTarball_sets_TarballPath:
  assumes "BuildTarball env bc w = (res, bc', w', tr)"
  shows "(\<forall>e. os_Create_err env (tarball_target env (bc_o bc)) = Some e \<longrightarrow> bc' = bc)
       \<and> (os_Create_err env (tarball_target env (bc_o bc)) = None \<longrightarrow>
            bc' = bc\<lparr>bc_o := (bc_o bc)\<lparr>TarballPath := tarball_target env (bc_o bc)\<rparr>\<rparr>
            \<and> created_paths tr = [TarballPath (bc_o bc')]
            \<and> files w' (TarballPath (bc_o bc')) \<noteq> None
            \<and> (\<forall>name dif dig sz. res = Inr (name, dif, dig, sz) \<longrightarrow> name = TarballPath (bc_o bc')))"
  using BuildTarball_effects[OF assms]
  by (auto split: option.splits)

theorem BuildTarball_sets_TarballPath_witness:
  "os_Create_err tar_env0 (tarball_target tar_env0 (bc_o bc0)) = None
   \<and> TarballPath (bc_o bc0) = []
   \<and> fst (snd (BuildTarball tar_env0 bc0 w0))
       = bc0\<lparr>bc_o := (bc_o bc0)\<lparr>TarballPath := tarball_target tar_env0 (bc_o bc0)\<rparr>\<rparr>
   \<and> tarball_target tar_env0 (bc_o bc0) = ''/tmp/apko/apko-x86_64.tar.gz''
   \<and> created_paths (snd (snd (snd (BuildTarball tar_env0 bc0 w0))))
       = [TarballPath (bc_o (fst (snd (BuildTarball tar_env0 bc0 w0))))]
   \<and> files (fst (snd (snd (BuildTarball tar_env0 bc0 w0))))
        (TarballPath (bc_o (fst (snd (BuildTarball tar_env0 bc0 w0))))) \<noteq> None
   \<and> os_Create_err tar_env_no_create (tarball_target tar_env_no_create (bc_o bc0))
       = Some (errors_New ''permission denied'')
   \<and> fst (snd (BuildTarball tar_env_no_create bc0 w0)) = bc0"
proof -
  have d: "\<And>X :: (error + string \<times> bytes \<times> bytes \<times> int) \<times> Context \<times> world \<times> event list.
      X = (fst X, fst (snd X), fst (snd (snd X)), snd (snd (snd X)))"
    by simp
  have t: "tarball_target tar_env0 (bc_o bc0) = ''/tmp/apko/apko-x86_64.tar.gz''"
    and p: "TarballPath (bc_o bc0) = []"
    by (simp_all add: tarball_target_def tar_env0_def bc0_def opts0_def)
  have c: "os_Create_err tar_env0 (tarball_target tar_env0 (bc_o bc0)) = None"
    and c': "os_Create_err tar_env_no_create (tarball_target tar_env_no_create (bc_o bc0))
       = Some (errors_New ''permission denied'')"
    by (simp_all add: tar_env0_def tar_env_no_create_def)
  from BuildTarball_sets_TarballPath[OF d] c
  have a: "fst (snd (BuildTarball tar_env0 bc0 w0))
       = bc0\<lparr>bc_o := (bc_o bc0)\<lparr>TarballPath := tarball_target tar_env0 (bc_o bc0)\<rparr>\<rparr>
   \<and> created_paths (snd (snd (snd (BuildTarball tar_env0 bc0 w0))))
       = [TarballPath (bc_o (fst (snd (BuildTarball tar_env0 bc0 w0))))]
   \<and> files (fst (snd (snd (BuildTarball tar_env0 bc0 w0))))
        (TarballPath (bc_o (fst (snd (BuildTarball tar_env0 bc0 w0))))) \<noteq> None"
    by blast
  from BuildTarball_sets_TarballPath[OF d] c'
  have b: "fst (snd (BuildTarball tar_env_no_create bc0 w0)) = bc0"
    by blast
  from c p a t c' b show ?thesis
    by blast
qed

end
